theory Spec2Isabelle
  imports Complex_Main "HOL-Library.Product_Lexorder"
begin

section \<open>Python values\<close>

text \<open>
  A Python \<open>str\<close> is a sequence of Unicode code points and \<open>len\<close> counts code points, so a
  \<open>str\<close> is a list of code points. ASCII literals are written through \<open>ascii\<close>; the Japanese
  text and the emoji of the notifier are given by their code points.
\<close>

type_synonym pystr = "nat list"

definition ascii :: "string \<Rightarrow> pystr" where
  "ascii s = map of_char s"

text \<open>
  A Python \<open>float\<close>. \<open>Finite q\<close> stands for the double nearest to the rational \<open>q\<close>; the
  rounding itself is not modelled. \<open>json.loads\<close> also accepts \<open>Infinity\<close>, \<open>-Infinity\<close>
  and \<open>NaN\<close>.
\<close>

datatype pyfloat = Finite rat | PosInf | NegInf | NaN

text \<open>
  What \<open>response.json()\<close> returns: \<open>None\<close>, \<open>bool\<close>, \<open>int\<close>, \<open>float\<close>, \<open>str\<close>, \<open>list\<close>
  or \<open>dict\<close>. A \<open>dict\<close> is an association list with distinct keys, read with \<open>map_of\<close>.
\<close>

datatype json =
    JNull
  | JBool bool
  | JInt int
  | JFloat pyfloat
  | JStr pystr
  | JArr "json list"
  | JObj "(string \<times> json) list"

text \<open>
  The exception classes of the two modules and the built-in ones their code can meet.
  \<open>LoginError\<close> and \<open>CalendarNotFoundError\<close> are subclasses of \<open>TimeTreeScraperError\<close>; no
  handler of the source catches \<open>TimeTreeScraperError\<close>, so the subclassing never decides a
  branch. The messages carried by the exceptions are not modelled.
\<close>

datatype pyexc =
    TimeTreeScraperError
  | LoginError
  | CalendarNotFoundError
  | DiscordNotifierError
  | RequestException
  | ValueError
  | TypeError
  | AttributeError
  | OverflowError
  | OSError

text \<open>Truth value testing, as in \<open>if ev.get("start_at"):\<close>.\<close>

fun py_truthy :: "json \<Rightarrow> bool" where
  "py_truthy JNull = False"
| "py_truthy (JBool b) = b"
| "py_truthy (JInt i) = (i \<noteq> 0)"
| "py_truthy (JFloat f) = (f \<noteq> Finite 0)"
| "py_truthy (JStr s) = (s \<noteq> [])"
| "py_truthy (JArr xs) = (xs \<noteq> [])"
| "py_truthy (JObj kvs) = (kvs \<noteq> [])"

text \<open>
  \<open>d.get(key, default)\<close>. Only a \<open>dict\<close> has the method: on every other value the attribute
  lookup raises \<open>AttributeError\<close>.
\<close>

fun py_get :: "json \<Rightarrow> string \<Rightarrow> json \<Rightarrow> pyexc + json" where
  "py_get (JObj kvs) k dflt = Inr (case map_of kvs k of None \<Rightarrow> dflt | Some v \<Rightarrow> v)"
| "py_get _ k dflt = Inl AttributeError"

text \<open>
  \<open>for ev in v\<close>: a list gives its elements, a \<open>dict\<close> its keys, a \<open>str\<close> its characters
  (each a \<open>str\<close> of length one); the other values are not iterable and raise \<open>TypeError\<close>.
\<close>

fun py_iter :: "json \<Rightarrow> pyexc + json list" where
  "py_iter (JArr xs) = Inr xs"
| "py_iter (JObj kvs) = Inr (map (\<lambda>kv. JStr (ascii (fst kv))) kvs)"
| "py_iter (JStr s) = Inr (map (\<lambda>c. JStr [c]) s)"
| "py_iter _ = Inl TypeError"

text \<open>
  \<open>v / 1000\<close>. True division of an \<open>int\<close> gives the correctly rounded \<open>float\<close> and raises
  \<open>OverflowError\<close> when the quotient rounds beyond the largest double, that is from
  \<open>2^1024 - 2^970\<close> on. A \<open>bool\<close> is an \<open>int\<close>. A \<open>str\<close>, list, \<open>dict\<close> or \<open>None\<close> does not
  support the operator: \<open>TypeError\<close>.
\<close>

definition float_overflow :: "rat \<Rightarrow> bool" where
  "float_overflow q = (2 ^ 1024 - 2 ^ 970 \<le> \<bar>q\<bar>)"

fun truediv_1000 :: "json \<Rightarrow> pyexc + pyfloat" where
  "truediv_1000 (JInt i) =
     (if float_overflow (of_int i / 1000) then Inl OverflowError
      else Inr (Finite (of_int i / 1000)))"
| "truediv_1000 (JBool b) = Inr (Finite (if b then 1 / 1000 else 0))"
| "truediv_1000 (JFloat (Finite q)) = Inr (Finite (q / 1000))"
| "truediv_1000 (JFloat f) = Inr f"
| "truediv_1000 _ = Inl TypeError"

section \<open>Dates and times\<close>

text \<open>
  A naive \<open>datetime\<close>. Python compares two of them as the tuples of their fields, in this
  order.
\<close>

record datetime =
  year :: nat
  month :: nat
  day :: nat
  hour :: nat
  minute :: nat
  second :: nat
  microsecond :: nat

definition dt_key :: "datetime \<Rightarrow> nat \<times> nat \<times> nat \<times> nat \<times> nat \<times> nat \<times> nat" where
  "dt_key d = (year d, month d, day d, hour d, minute d, second d, microsecond d)"

definition dt_le :: "datetime \<Rightarrow> datetime \<Rightarrow> bool" where
  "dt_le a b = (dt_key a \<le> dt_key b)"

definition dt_lt :: "datetime \<Rightarrow> datetime \<Rightarrow> bool" where
  "dt_lt a b = (dt_key a < dt_key b)"

text \<open>
  \<open>datetime.fromtimestamp\<close> depends on the platform (its \<open>time_t\<close>, its local time zone), so
  the conversion is a parameter of the model: it gives the local \<open>datetime\<close> of a \<open>float\<close> of
  seconds, or the exception that the call raises there. The documentation names
  \<open>OverflowError\<close> (out of the range of \<open>time_t\<close>), \<open>OSError\<close> (\<open>localtime\<close> fails) and
  \<open>ValueError\<close> (year out of range, \<open>NaN\<close>).
\<close>

type_synonym fromtimestamp = "pyfloat \<Rightarrow> pyexc + datetime"

section \<open>The scraper: normalisation of raw events\<close>

text \<open>
  An event dictionary: the \<open>event_data\<close> that \<open>get_events\<close> builds for one raw record, and
  what the filter and the notifier read. The plain keys hold whatever the server sent, also
  \<open>None\<close> for a JSON \<open>null\<close>. Every reader goes through \<open>.get\<close>, for which a missing key
  and the value \<open>None\<close> are the same; so \<open>JNull\<close> stands for both, and \<open>e_start\<close> and \<open>e_end\<close>
  are \<open>None\<close> in both cases. The title alone is read with a default,
  \<open>event.get("title", "Untitled")\<close>: there \<open>None\<close> is the missing key and \<open>Some JNull\<close> the
  key that holds \<open>None\<close>. \<open>get_events\<close> always stores the key.
\<close>

record event_data =
  e_id :: json
  e_title :: "json option"
  e_all_day :: json
  e_location :: json
  e_description :: json
  e_color :: json
  e_start :: "datetime option"
  e_end :: "datetime option"

text \<open>
  Lines 165-171 (and 173-178, 217-229) for one timestamp value \<open>v = ev.get(key)\<close>: a falsy
  value leaves the key out; otherwise \<open>datetime.fromtimestamp(v / 1000)\<close> is tried, and
  \<open>TypeError\<close> and \<open>ValueError\<close> store \<open>None\<close>. Any other exception leaves the handler.
\<close>

definition parse_time :: "fromtimestamp \<Rightarrow> json \<Rightarrow> pyexc + datetime option" where
  "parse_time conv v =
     (if py_truthy v then
        (case (case truediv_1000 v of Inl e \<Rightarrow> Inl e | Inr x \<Rightarrow> conv x) of
           Inr dt \<Rightarrow> Inr (Some dt)
         | Inl e \<Rightarrow> if e = TypeError \<or> e = ValueError then Inr None else Inl e)
      else Inr None)"

text \<open>The body of the \<open>for\<close> loop, lines 155-180, for one element \<open>ev\<close> of the event array.\<close>

fun normalize_event :: "fromtimestamp \<Rightarrow> json \<Rightarrow> pyexc + event_data" where
  "normalize_event conv (JObj kvs) =
     (let field = (\<lambda>k dflt. case map_of kvs k of None \<Rightarrow> dflt | Some v \<Rightarrow> v) in
      case parse_time conv (field ''start_at'' JNull) of
        Inl e \<Rightarrow> Inl e
      | Inr s \<Rightarrow>
          (case parse_time conv (field ''end_at'' JNull) of
             Inl e \<Rightarrow> Inl e
           | Inr en \<Rightarrow>
               Inr \<lparr> e_id = field ''id'' JNull,
                     e_title = Some (field ''title'' (JStr (ascii ''Untitled''))),
                     e_all_day = field ''all_day'' (JBool False),
                     e_location = field ''location'' JNull,
                     e_description = field ''note'' JNull,
                     e_color = field ''label_id'' JNull,
                     e_start = s,
                     e_end = en \<rparr>))"
| "normalize_event conv _ = Inl AttributeError"

text \<open>The loop itself: the first exception ends it.\<close>

fun normalize_events :: "fromtimestamp \<Rightarrow> json list \<Rightarrow> pyexc + event_data list" where
  "normalize_events conv [] = Inr []"
| "normalize_events conv (ev # evs) =
     (case normalize_event conv ev of
        Inl e \<Rightarrow> Inl e
      | Inr d \<Rightarrow>
          (case normalize_events conv evs of
             Inl e \<Rightarrow> Inl e
           | Inr ds \<Rightarrow> Inr (d # ds)))"

text \<open>\<open>data.get("events", [])\<close> and the loop over it, lines 152-180 and 205-231.\<close>

definition build_events :: "fromtimestamp \<Rightarrow> json \<Rightarrow> pyexc + event_data list" where
  "build_events conv data =
     (case py_get data ''events'' (JArr []) of
        Inl e \<Rightarrow> Inl e
      | Inr v \<Rightarrow>
          (case py_iter v of
             Inl e \<Rightarrow> Inl e
           | Inr evs \<Rightarrow> normalize_events conv evs))"

section \<open>The scraper: fetching the events\<close>

text \<open>
  What \<open>session.get\<close> gives back: either it raises a \<open>requests.RequestException\<close> (no
  connection, timeout), or it returns a response. Of the response the code reads the status,
  the body through \<open>response.json()\<close> (\<open>None\<close> here when the body is not JSON and the call
  raises, an exception that is both a \<open>ValueError\<close> and, in current versions of the library,
  a \<open>RequestException\<close>), and the cookies.
\<close>

record response =
  status_code :: int
  json_body :: "json option"
  cookies :: "(string \<times> pystr) list"

datatype http_result = Raised | Returned response

text \<open>
  A call of the sync endpoint of a calendar: \<open>SyncRequest calendar_id None\<close> is the plain
  URL, \<open>SyncRequest calendar_id (Some v)\<close> the URL with \<open>?since=\<close> and the text of
  \<open>v\<close> appended (the f-string of line 198 formats whatever value it is given; \<open>None\<close> is
  \<open>JNull\<close>).
\<close>

datatype request = SyncRequest pystr "json option"

text \<open>
  The two \<open>except\<close> blocks. In \<open>get_events\<close> (lines 190-193) a \<open>RequestException\<close> or a
  \<open>ValueError\<close> becomes a \<open>TimeTreeScraperError\<close>; in \<open>_get_events_recursive\<close> (lines 239-240)
  the same two make the call return the empty list. Every other exception passes through.
\<close>

definition get_events_except :: "pyexc \<Rightarrow> pyexc + event_data list" where
  "get_events_except e =
     (if e = RequestException \<or> e = ValueError then Inl TimeTreeScraperError else Inl e)"

definition recursive_except :: "pyexc \<Rightarrow> pyexc + event_data list" where
  "recursive_except e =
     (if e = RequestException \<or> e = ValueError then Inr [] else Inl e)"

text \<open>
  The server is the list of its answers, in the order of the calls; each call takes the next
  one. The functions return what the Python returns or raises, and the calls they have made.
  A server may announce a further chunk for ever, so the recursion need not end: when the
  list of answers is used up before the code stops calling, the result is \<open>None\<close>.
\<close>

fun get_events_recursive ::
  "fromtimestamp \<Rightarrow> pystr \<Rightarrow> json \<Rightarrow> http_result list \<Rightarrow>
   ((pyexc + event_data list) \<times> request list) option" where
  "get_events_recursive conv calendar_id since [] = None"
| "get_events_recursive conv calendar_id since (r # script) =
     (let req = SyncRequest calendar_id (Some since) in
      case r of
        Raised \<Rightarrow> Some (recursive_except RequestException, [req])
      | Returned response \<Rightarrow>
          if status_code response \<noteq> 200 then Some (Inr [], [req])
          else
            (case json_body response of
               None \<Rightarrow> Some (recursive_except ValueError, [req])
             | Some data \<Rightarrow>
                 (case build_events conv data of
                    Inl e \<Rightarrow> Some (recursive_except e, [req])
                  | Inr events \<Rightarrow>
                      (case py_get data ''chunk'' JNull of
                         Inl e \<Rightarrow> Some (recursive_except e, [req])
                       | Inr chunk \<Rightarrow>
                           if chunk = JBool True then
                             (case py_get data ''since'' JNull of
                                Inl e \<Rightarrow> Some (recursive_except e, [req])
                              | Inr next_since \<Rightarrow>
                                  (case get_events_recursive conv calendar_id next_since script of
                                     None \<Rightarrow> None
                                   | Some (Inl e, reqs) \<Rightarrow> Some (recursive_except e, req # reqs)
                                   | Some (Inr further, reqs) \<Rightarrow>
                                       Some (Inr (events @ further), req # reqs)))
                           else Some (Inr events, [req])))))"

fun get_events ::
  "fromtimestamp \<Rightarrow> pystr \<Rightarrow> http_result list \<Rightarrow>
   ((pyexc + event_data list) \<times> request list) option" where
  "get_events conv calendar_id [] = None"
| "get_events conv calendar_id (r # script) =
     (let req = SyncRequest calendar_id None in
      case r of
        Raised \<Rightarrow> Some (get_events_except RequestException, [req])
      | Returned response \<Rightarrow>
          if status_code response \<noteq> 200 then Some (Inl TimeTreeScraperError, [req])
          else
            (case json_body response of
               None \<Rightarrow> Some (get_events_except ValueError, [req])
             | Some data \<Rightarrow>
                 (case build_events conv data of
                    Inl e \<Rightarrow> Some (get_events_except e, [req])
                  | Inr events \<Rightarrow>
                      (case py_get data ''chunk'' JNull of
                         Inl e \<Rightarrow> Some (get_events_except e, [req])
                       | Inr chunk \<Rightarrow>
                           if chunk = JBool True then
                             (case py_get data ''since'' JNull of
                                Inl e \<Rightarrow> Some (get_events_except e, [req])
                              | Inr since \<Rightarrow>
                                  if py_truthy since then
                                    (case get_events_recursive conv calendar_id since script of
                                       None \<Rightarrow> None
                                     | Some (Inl e, reqs) \<Rightarrow> Some (get_events_except e, req # reqs)
                                     | Some (Inr further, reqs) \<Rightarrow>
                                         Some (Inr (events @ further), req # reqs))
                                  else Some (Inr events, [req]))
                           else Some (Inr events, [req])))))"

text \<open>
  The words of the specification for a failed call: a transport error, a status other than
  200, or a body that cannot be parsed.
\<close>

definition call_failed :: "http_result \<Rightarrow> bool" where
  "call_failed r =
     (case r of
        Raised \<Rightarrow> True
      | Returned response \<Rightarrow> status_code response \<noteq> 200 \<or> json_body response = None)"

text \<open>
  A successful call that announces a further chunk: status 200, a body whose events are all
  normalised, and \<open>chunk\<close> equal to \<open>true\<close>. The value is the list of its events and its
  \<open>since\<close> cursor (\<open>JNull\<close> when the body has none).
\<close>

definition chunk_page :: "fromtimestamp \<Rightarrow> http_result \<Rightarrow> (event_data list \<times> json) option" where
  "chunk_page conv r =
     (case r of
        Raised \<Rightarrow> None
      | Returned response \<Rightarrow>
          if status_code response \<noteq> 200 then None
          else
            (case json_body response of
               None \<Rightarrow> None
             | Some data \<Rightarrow>
                 (case (build_events conv data, py_get data ''chunk'' JNull,
                        py_get data ''since'' JNull) of
                    (Inr events, Inr chunk, Inr since) \<Rightarrow>
                      if chunk = JBool True then Some (events, since) else None
                  | _ \<Rightarrow> None)))"

section \<open>The scraper: signing in\<close>

text \<open>
  The fields of a \<open>TimeTreeScraper\<close>; of its \<open>requests.Session\<close> only the cookie jar is
  kept.
\<close>

record scraper =
  email :: pystr
  password :: pystr
  session_id :: "pystr option"
  session_cookies :: "(string \<times> pystr) list"

text \<open>
  \<open>login\<close>, lines 54-88, given what \<open>requests.put\<close> does. An empty cookie value is falsy, so
  it fails like a missing cookie. The assignment of line 80 happens before the test, so a
  failure at line 82 leaves the scraper with the value that was read.
\<close>

definition login :: "http_result \<Rightarrow> scraper \<Rightarrow> (pyexc + unit) \<times> scraper" where
  "login put_result self =
     (case put_result of
        Raised \<Rightarrow> (Inl LoginError, self)
      | Returned response \<Rightarrow>
          if status_code response \<noteq> 200 then (Inl LoginError, self)
          else
            (let self1 = self \<lparr> session_id := map_of (cookies response) ''_session_id'' \<rparr> in
             case session_id self1 of
               None \<Rightarrow> (Inl LoginError, self1)
             | Some sid \<Rightarrow>
                 if sid = [] then (Inl LoginError, self1)
                 else
                   (Inr (),
                    self1 \<lparr> session_cookies :=
                      (''_session_id'', sid) #
                      filter (\<lambda>kv. fst kv \<noteq> ''_session_id'') (session_cookies self1) \<rparr>)))"

text \<open>
  The words of the specification for a successful sign-in: status 200 and a session token in
  the response.
\<close>

definition signin_ok :: "http_result \<Rightarrow> bool" where
  "signin_ok r =
     (case r of
        Raised \<Rightarrow> False
      | Returned response \<Rightarrow>
          status_code response = 200 \<and>
          (case map_of (cookies response) ''_session_id'' of
             None \<Rightarrow> False
           | Some sid \<Rightarrow> sid \<noteq> []))"

section \<open>The scraper: the date filter\<close>

text \<open>
  The loop of \<open>get_upcoming_events\<close>, lines 271-283, over the events that \<open>get_events\<close>
  returned (the same loop is in \<open>get_events_for_date\<close> of \<open>main.py\<close>). The bounds
  \<open>start_date\<close> and \<open>end_date\<close> come from the clock, lines 267-269, and are arguments here.
  A \<open>datetime\<close> is always truthy, so \<open>if event_start:\<close> tests that it is not \<open>None\<close>.
\<close>

fun filter_loop ::
  "datetime \<Rightarrow> datetime \<Rightarrow> event_data list \<Rightarrow> event_data list \<Rightarrow> event_data list" where
  "filter_loop start_date end_date [] filtered_events = filtered_events"
| "filter_loop start_date end_date (event # all_events) filtered_events =
     filter_loop start_date end_date all_events
       (case e_start event of
          None \<Rightarrow> filtered_events
        | Some event_start \<Rightarrow>
            if dt_le start_date event_start \<and> dt_lt event_start end_date
            then filtered_events @ [event]
            else if py_truthy (e_all_day event) \<and> dt_le event_start end_date then
              (case e_end event of
                 None \<Rightarrow> filtered_events
               | Some event_end \<Rightarrow>
                   if dt_lt start_date event_end then filtered_events @ [event]
                   else filtered_events)
            else filtered_events)"

definition filter_events :: "datetime \<Rightarrow> datetime \<Rightarrow> event_data list \<Rightarrow> event_data list" where
  "filter_events start_date end_date all_events = filter_loop start_date end_date all_events []"

text \<open>
  The two rules of the specification: the start lies in the window, or the event is an
  all-day one that starts no later than the end of the window and ends after its start.
\<close>

definition starts_in_window :: "datetime \<Rightarrow> datetime \<Rightarrow> event_data \<Rightarrow> bool" where
  "starts_in_window window_start window_end event =
     (case e_start event of
        None \<Rightarrow> False
      | Some s \<Rightarrow> dt_le window_start s \<and> dt_lt s window_end)"

definition all_day_overlap :: "datetime \<Rightarrow> datetime \<Rightarrow> event_data \<Rightarrow> bool" where
  "all_day_overlap window_start window_end event =
     (py_truthy (e_all_day event) \<and>
      (case e_start event of None \<Rightarrow> False | Some s \<Rightarrow> dt_le s window_end) \<and>
      (case e_end event of None \<Rightarrow> False | Some en \<Rightarrow> dt_lt window_start en))"

section \<open>The notifier: rendering dates and times\<close>

text \<open>
  The decimal digits of a number, as \<open>str\<close> and the f-strings print an \<open>int\<close>, and the
  two-digit form of \<open>%H\<close>, \<open>%M\<close>, \<open>%m\<close> and \<open>%d\<close>.
\<close>

function str_nat :: "nat \<Rightarrow> pystr" where
  "str_nat n = (if n < 10 then [48 + n] else str_nat (n div 10) @ [48 + n mod 10])"
  by pat_completeness auto
termination
  by (relation "measure id") auto

declare str_nat.simps [simp del]

definition two_digits :: "nat \<Rightarrow> pystr" where
  "two_digits n = (if n < 10 then 48 # str_nat n else str_nat n)"

text \<open>\<open>_format_time\<close>: \<open>dt.strftime("%H:%M")\<close>.\<close>

definition format_time :: "datetime \<Rightarrow> pystr" where
  "format_time dt = two_digits (hour dt) @ ascii '':'' @ two_digits (minute dt)"

text \<open>
  \<open>dt.strftime('%Y/%m/%d %H:%M')\<close> of the footers. The C library prints the year of \<open>%Y\<close>
  without padding; from the year 1000 on this is the four-digit form.
\<close>

definition strftime_footer :: "datetime \<Rightarrow> pystr" where
  "strftime_footer dt =
     str_nat (year dt) @ ascii ''/'' @ two_digits (month dt) @ ascii ''/'' @
     two_digits (day dt) @ ascii '' '' @ two_digits (hour dt) @ ascii '':'' @
     two_digits (minute dt)"

text \<open>
  \<open>datetime.weekday\<close>, as the standard library computes it from the proleptic Gregorian
  ordinal of the date: Monday is 0. The table of the days before a month is read for the
  months 1 to 12, the only ones a \<open>datetime\<close> can hold.
\<close>

definition is_leap :: "nat \<Rightarrow> bool" where
  "is_leap y = (y mod 4 = 0 \<and> (y mod 100 \<noteq> 0 \<or> y mod 400 = 0))"

definition days_before_year :: "nat \<Rightarrow> nat" where
  "days_before_year y = (y - 1) * 365 + (y - 1) div 4 - (y - 1) div 100 + (y - 1) div 400"

definition days_before_month :: "nat \<Rightarrow> nat \<Rightarrow> nat" where
  "days_before_month y m =
     (if 1 \<le> m \<and> m \<le> 12
      then [0, 31, 59, 90, 120, 151, 181, 212, 243, 273, 304, 334] ! (m - 1) +
           (if 2 < m \<and> is_leap y then 1 else 0)
      else 0)"

definition ymd2ord :: "nat \<Rightarrow> nat \<Rightarrow> nat \<Rightarrow> nat" where
  "ymd2ord y m d = days_before_year y + days_before_month y m + d"

definition weekday :: "datetime \<Rightarrow> nat" where
  "weekday dt = (ymd2ord (year dt) (month dt) (day dt) + 6) mod 7"

text \<open>\<open>_format_date\<close>, lines 27-30; the weekday names are the seven kanji of line 29.\<close>

definition weekdays :: "nat list" where
  "weekdays = [0x6708, 0x706B, 0x6C34, 0x6728, 0x91D1, 0x571F, 0x65E5]"

definition format_date :: "datetime \<Rightarrow> pystr" where
  "format_date dt =
     str_nat (month dt) @ [0x6708] @ str_nat (day dt) @ [0x65E5] @ ascii '' ('' @
     [weekdays ! weekday dt] @ ascii '')''"

section \<open>The notifier: events and embeds\<close>

text \<open>
  The notifier receives the event dictionaries that \<open>get_events\<close> has built: \<open>main.py\<close>
  filters them and passes them on as they are.

  \<open>f"{v}"\<close> inserts a \<open>str\<close> as it is. For any other value it inserts what \<open>str\<close> makes of
  it (the digits of a number, the \<open>repr\<close> of a list); this text is a parameter of the model.
\<close>

type_synonym text_of = "json \<Rightarrow> pystr"

definition format_value :: "text_of \<Rightarrow> json \<Rightarrow> pystr" where
  "format_value str_of v = (case v of JStr s \<Rightarrow> s | _ \<Rightarrow> str_of v)"

text \<open>
  \<open>prefix + event.get("title", "Untitled")\<close>: the default stands in for a missing key only,
  and \<open>+\<close> joins a \<open>str\<close> to a \<open>str\<close> only. A title that is \<open>None\<close>, a number, a list or a
  \<open>dict\<close> raises \<open>TypeError\<close>.
\<close>

fun with_title :: "pystr \<Rightarrow> json option \<Rightarrow> pyexc + pystr" where
  "with_title prefix None = Inr (prefix @ ascii ''Untitled'')"
| "with_title prefix (Some (JStr t)) = Inr (prefix @ t)"
| "with_title prefix (Some _) = Inl TypeError"

text \<open>\<open>"\n".join(lines)\<close>.\<close>

fun join_lines :: "pystr list \<Rightarrow> pystr" where
  "join_lines [] = []"
| "join_lines [l] = l"
| "join_lines (l # ls) = l @ [10] @ join_lines ls"

text \<open>
  \<open>_format_event\<close>, lines 36-54. A \<open>datetime\<close> is always truthy, so the test of line 43 asks
  whether both times are there.
\<close>

definition format_event :: "text_of \<Rightarrow> event_data \<Rightarrow> pyexc + pystr" where
  "format_event str_of event =
     (case
        (if py_truthy (e_all_day event)
         then with_title [0x2022, 0x20, 0x7D42, 0x65E5, 0x20, 0x2D, 0x20] (e_title event)
         else
           (case (e_start event, e_end event) of
              (Some s, Some e) \<Rightarrow>
                with_title
                  ([0x2022, 0x20] @ format_time s @ ascii '' - '' @ format_time e @ ascii '' '')
                  (e_title event)
            | _ \<Rightarrow> with_title [0x2022, 0x20] (e_title event)))
      of
        Inl e \<Rightarrow> Inl e
      | Inr first_line \<Rightarrow>
          Inr (join_lines
                 (if py_truthy (e_location event)
                  then [first_line,
                        [0x20, 0x20, 0x1F4CD, 0x20] @ format_value str_of (e_location event)]
                  else [first_line])))"

text \<open>
  A loop or a generator over values that may raise: the first exception ends it, otherwise
  it gives all the values.
\<close>

fun collect :: "(pyexc + 'a) list \<Rightarrow> pyexc + 'a list" where
  "collect [] = Inr []"
| "collect (x # xs) =
     (case x of
        Inl e \<Rightarrow> Inl e
      | Inr v \<Rightarrow> (case collect xs of Inl e \<Rightarrow> Inl e | Inr vs \<Rightarrow> Inr (v # vs)))"

text \<open>
  The two lines that follow every \<open>"\n".join\<close> (94-96, 128-129, 152-153): a value longer
  than 1024 characters is cut.
\<close>

definition limit_field_value :: "pystr \<Rightarrow> pystr" where
  "limit_field_value field_value =
     (if 1024 < length field_value then take 1020 field_value @ ascii ''...''
      else field_value)"

text \<open>
  \<open>"\n".join(self._format_event(e) for e in events)\<close> and the cut, lines 92-96, 127-129
  and 151-153.
\<close>

definition render_events :: "text_of \<Rightarrow> event_data list \<Rightarrow> pyexc + pystr" where
  "render_events str_of events =
     (case collect (map (format_event str_of) events) of
        Inl e \<Rightarrow> Inl e
      | Inr texts \<Rightarrow> Inr (limit_field_value (join_lines texts)))"

text \<open>
  A field and an embed object. A key that the code leaves out of the dictionary
  (\<open>description\<close>, \<open>fields\<close>) is \<open>None\<close>; the footer is the text of its one key.
\<close>

record field =
  field_name :: pystr
  field_value :: pystr
  field_inline :: bool

record embed =
  embed_title :: pystr
  embed_description :: "pystr option"
  embed_color :: nat
  embed_fields :: "field list option"
  embed_footer :: pystr

definition accent_color :: nat where
  "accent_color = 0x5865F2"

definition success_color :: nat where
  "success_color = 0x57F287"

definition updated_suffix :: pystr where
  "updated_suffix = [0x20, 0x66F4, 0x65B0]"

definition no_events_text :: pystr where
  "no_events_text =
     ascii ''**'' @ [0x4E88, 0x5B9A, 0x306F, 0x3042, 0x308A, 0x307E, 0x305B, 0x3093] @ ascii ''**''"

text \<open>
  One of the two branches of \<open>_create_daily_embeds\<close>, lines 126-147 and 150-171, which
  differ in the heading and the date of the title only; the footer of both is made from
  \<open>current_date\<close>. An exception of the formatter leaves the branch.
\<close>

definition daily_embed ::
  "text_of \<Rightarrow> pystr \<Rightarrow> pystr \<Rightarrow> event_data list \<Rightarrow> datetime \<Rightarrow> pyexc + embed" where
  "daily_embed str_of heading date_str events current_date =
     (if events \<noteq> [] then
        (case render_events str_of events of
           Inl e \<Rightarrow> Inl e
         | Inr rendered \<Rightarrow>
             Inr \<lparr> embed_title = heading @ date_str,
                   embed_description = None,
                   embed_color = accent_color,
                   embed_fields =
                     Some [\<lparr> field_name = [0x4E88, 0x5B9A], field_value = rendered,
                              field_inline = False \<rparr>],
                   embed_footer = strftime_footer current_date @ updated_suffix \<rparr>)
      else
        Inr \<lparr> embed_title = heading @ date_str,
              embed_description = Some no_events_text,
              embed_color = success_color,
              embed_fields = None,
              embed_footer = strftime_footer current_date @ updated_suffix \<rparr>)"

definition today_heading :: pystr where
  "today_heading = [0x1F4C5, 0x20, 0x4ECA, 0x65E5, 0x306E, 0x4E88, 0x5B9A, 0x20, 0x2D, 0x20]"

definition tomorrow_heading :: pystr where
  "tomorrow_heading = [0x1F4C5, 0x20, 0x660E, 0x65E5, 0x306E, 0x4E88, 0x5B9A, 0x20, 0x2D, 0x20]"

text \<open>
  \<open>_create_daily_embeds\<close>, lines 107-173: the embed of today is built first, then the one of
  tomorrow.
\<close>

definition create_daily_embeds ::
  "text_of \<Rightarrow> event_data list \<Rightarrow> event_data list \<Rightarrow> datetime \<Rightarrow> datetime \<Rightarrow>
   pyexc + embed list" where
  "create_daily_embeds str_of today_events tomorrow_events current_date tomorrow_date =
     (let today_str = format_date current_date;
          tomorrow_str = format_date tomorrow_date
      in case daily_embed str_of today_heading today_str today_events current_date of
           Inl e \<Rightarrow> Inl e
         | Inr today_embed \<Rightarrow>
             (case daily_embed str_of tomorrow_heading tomorrow_str tomorrow_events
                     current_date of
                Inl e \<Rightarrow> Inl e
              | Inr tomorrow_embed \<Rightarrow> Inr [today_embed, tomorrow_embed]))"

text \<open>
  \<open>_create_embeds\<close>, lines 56-105. The events are sorted by their start, those without one
  under \<open>datetime.min\<close>; \<open>sorted\<close> is stable, as \<open>sort_key\<close> is. \<open>events_by_date\<close> is a
  dictionary in insertion order, here an association list with distinct keys, whose items
  are then sorted by their date. The readings of \<open>datetime.now()\<close> in one call are taken to be
  the same instant \<open>now\<close>.
\<close>

definition datetime_min :: datetime where
  "datetime_min =
     \<lparr> year = 1, month = 1, day = 1, hour = 0, minute = 0, second = 0, microsecond = 0 \<rparr>"

type_synonym date = "nat \<times> nat \<times> nat"

definition date_of :: "datetime \<Rightarrow> date" where
  "date_of dt = (year dt, month dt, day dt)"

definition at_midnight :: "date \<Rightarrow> datetime" where
  "at_midnight d =
     (case d of (y, m, dd) \<Rightarrow>
        \<lparr> year = y, month = m, day = dd, hour = 0, minute = 0, second = 0, microsecond = 0 \<rparr>)"

definition sort_by_start :: "event_data list \<Rightarrow> event_data list" where
  "sort_by_start events =
     sort_key (\<lambda>e. dt_key (case e_start e of None \<Rightarrow> datetime_min | Some s \<Rightarrow> s)) events"

fun add_to_date ::
  "date \<Rightarrow> event_data \<Rightarrow> (date \<times> event_data list) list \<Rightarrow> (date \<times> event_data list) list" where
  "add_to_date date_key event [] = [(date_key, [event])]"
| "add_to_date date_key event ((k, day_events) # rest) =
     (if k = date_key then (k, day_events @ [event]) # rest
      else (k, day_events) # add_to_date date_key event rest)"

definition group_by_date :: "datetime \<Rightarrow> event_data list \<Rightarrow> (date \<times> event_data list) list" where
  "group_by_date now events =
     foldl (\<lambda>events_by_date event.
              add_to_date (case e_start event of None \<Rightarrow> date_of now | Some s \<Rightarrow> date_of s)
                event events_by_date)
       [] (sort_by_start events)"

text \<open>The body of the loop over the dates, lines 91-102.\<close>

definition date_field :: "text_of \<Rightarrow> date \<times> event_data list \<Rightarrow> pyexc + field" where
  "date_field str_of item =
     (case render_events str_of (snd item) of
        Inl e \<Rightarrow> Inl e
      | Inr rendered \<Rightarrow>
          Inr \<lparr> field_name = [0x1F5D3, 0xFE0F, 0x20] @ format_date (at_midnight (fst item)),
                field_value = rendered,
                field_inline = False \<rparr>)"

definition weekly_title :: pystr where
  "weekly_title = [0x1F4C5, 0x20, 0x4ECA, 0x9031, 0x306E] @ ascii ''TimeTree'' @ [0x4E88, 0x5B9A]"

definition create_embeds :: "text_of \<Rightarrow> datetime \<Rightarrow> event_data list \<Rightarrow> pyexc + embed list" where
  "create_embeds str_of now events =
     (if events = [] then Inr []
      else
        (case collect (map (date_field str_of) (sort_key fst (group_by_date now events))) of
           Inl e \<Rightarrow> Inl e
         | Inr field_list \<Rightarrow>
             Inr [\<lparr> embed_title = weekly_title,
                    embed_description = None,
                    embed_color = accent_color,
                    embed_fields = Some field_list,
                    embed_footer = strftime_footer now @ updated_suffix \<rparr>]))"

section \<open>The notifier: sending\<close>

text \<open>
  The JSON body of a webhook call: a list of embeds, or a plain content with an optional
  user name. \<open>requests.post\<close> is a parameter: for a URL and a body it either raises a
  \<open>RequestException\<close> or returns a response.
\<close>

datatype payload = Embeds "embed list" | Content pystr "pystr option"

type_synonym post = "pystr \<Rightarrow> payload \<Rightarrow> http_result"

text \<open>
  The \<open>try\<close> block that ends the three senders (lines 194-205, 232-243, 263-274).
  \<open>raise_for_status\<close> raises an \<open>HTTPError\<close>, a \<open>RequestException\<close>, for a status from 400 to
  599 and does nothing otherwise.
\<close>

definition post_payload :: "post \<Rightarrow> pystr \<Rightarrow> payload \<Rightarrow> pyexc + bool" where
  "post_payload post webhook_url payload =
     (case post webhook_url payload of
        Raised \<Rightarrow> Inl DiscordNotifierError
      | Returned response \<Rightarrow>
          if 400 \<le> status_code response \<and> status_code response < 600
          then Inl DiscordNotifierError
          else Inr True)"

text \<open>
  \<open>send_daily_notification\<close>, lines 175-205. The payload is built at line 192, before the
  \<open>try\<close>: an exception of the formatter is not caught, and no call is made.
\<close>

definition send_daily_notification ::
  "post \<Rightarrow> pystr \<Rightarrow> text_of \<Rightarrow> event_data list \<Rightarrow> event_data list \<Rightarrow> datetime \<Rightarrow>
   datetime \<Rightarrow> pyexc + bool" where
  "send_daily_notification post webhook_url str_of today_events tomorrow_events current_date
       tomorrow_date =
     (case create_daily_embeds str_of today_events tomorrow_events current_date
             tomorrow_date of
        Inl e \<Rightarrow> Inl e
      | Inr embeds \<Rightarrow> post_payload post webhook_url (Embeds embeds))"

definition no_events_embed :: "datetime \<Rightarrow> embed" where
  "no_events_embed now =
     \<lparr> embed_title = weekly_title,
       embed_description =
         Some [0x4E88, 0x5B9A, 0x306F, 0x3042, 0x308A, 0x307E, 0x305B, 0x3093, 0x20, 0x1F389],
       embed_color = success_color,
       embed_fields = None,
       embed_footer = strftime_footer now @ updated_suffix \<rparr>"

text \<open>\<open>send_events\<close>, lines 207-243; here too the payload is built before the \<open>try\<close>.\<close>

definition send_events ::
  "post \<Rightarrow> pystr \<Rightarrow> text_of \<Rightarrow> datetime \<Rightarrow> event_data list \<Rightarrow> pyexc + bool" where
  "send_events post webhook_url str_of now events =
     (if events = [] then post_payload post webhook_url (Embeds [no_events_embed now])
      else
        (case create_embeds str_of now events of
           Inl e \<Rightarrow> Inl e
         | Inr embeds \<Rightarrow> post_payload post webhook_url (Embeds embeds)))"

text \<open>\<open>send_raw\<close>, lines 245-274, for a \<open>str\<close> content and an optional \<open>str\<close> user name.\<close>

definition send_raw :: "post \<Rightarrow> pystr \<Rightarrow> pystr \<Rightarrow> pystr option \<Rightarrow> pyexc + bool" where
  "send_raw post webhook_url content username =
     post_payload post webhook_url
       (Content content
          (case username of
             None \<Rightarrow> None
           | Some u \<Rightarrow> if u \<noteq> [] then Some u else None))"

section \<open>One platform\<close>

text \<open>
  An instance of the conversion, for evaluating the scraper on concrete answers: a 64-bit
  Linux whose local time zone is UTC. The arithmetic is exact, the microseconds are rounded
  half to even, and the date comes from the ordinal as in the standard library. Beyond the
  years 1 to 9999 the call raises \<open>ValueError\<close>, beyond the years of a C \<open>int\<close> \<open>OSError\<close>,
  beyond \<open>time_t\<close> \<open>OverflowError\<close>.
\<close>

definition round_half_even :: "rat \<Rightarrow> int" where
  "round_half_even q =
     (let f = \<lfloor>q\<rfloor>; d = q - of_int f
      in if d < 1 / 2 then f else if 1 / 2 < d then f + 1 else if even f then f else f + 1)"

definition days_in_month :: "nat \<Rightarrow> bool \<Rightarrow> nat" where
  "days_in_month m leap =
     (if 1 \<le> m \<and> m \<le> 12
      then [31, 28, 31, 30, 31, 30, 31, 31, 30, 31, 30, 31] ! (m - 1) +
           (if m = 2 \<and> leap then 1 else 0)
      else 0)"

definition ord2ymd :: "nat \<Rightarrow> date" where
  "ord2ymd ordinal =
     (let n0 = ordinal - 1;
          n400 = n0 div 146097; r400 = n0 mod 146097;
          n100 = r400 div 36524; r100 = r400 mod 36524;
          n4 = r100 div 1461; r4 = r100 mod 1461;
          n1 = r4 div 365; n = r4 mod 365;
          y = n400 * 400 + 1 + n100 * 100 + n4 * 4 + n1
      in if n1 = 4 \<or> n100 = 4 then (y - 1, 12, 31)
         else
           (let leapyear = (n1 = 3 \<and> (n4 \<noteq> 24 \<or> n100 = 3));
                m = (n + 50) div 32;
                preceding =
                  (if 1 \<le> m \<and> m \<le> 12
                   then [0, 31, 59, 90, 120, 151, 181, 212, 243, 273, 304, 334] ! (m - 1)
                   else 0) + (if 2 < m \<and> leapyear then 1 else 0)
            in if n < preceding
               then (y, m - 1, n - (preceding - days_in_month (m - 1) leapyear) + 1)
               else (y, m, n - preceding + 1)))"

definition fromtimestamp_utc :: fromtimestamp where
  "fromtimestamp_utc x =
     (case x of
        NaN \<Rightarrow> Inl ValueError
      | PosInf \<Rightarrow> Inl OverflowError
      | NegInf \<Rightarrow> Inl OverflowError
      | Finite q \<Rightarrow>
          (let us = round_half_even (q * 1000000); t = us div 1000000
           in if t < - (2 ^ 63) \<or> 2 ^ 63 \<le> t then Inl OverflowError
              else if t < - 67768040609740800 \<or> 67768036191676800 \<le> t then Inl OSError
              else if t < - 62135510400 \<or> 253402300800 \<le> t then Inl ValueError
              else
                (let ymd = ord2ymd (nat (719163 + t div 86400)); s = nat (t mod 86400)
                 in Inr \<lparr> year = fst ymd, month = fst (snd ymd), day = snd (snd ymd),
                          hour = s div 3600, minute = s mod 3600 div 60, second = s mod 60,
                          microsecond = nat (us mod 1000000) \<rparr>)))"

section \<open>The words of the specification for the daily digest\<close>

text \<open>
  The rendering that the specification describes, written out on its own, without the
  functions of the notifier. An event gives one line, by its kind: the bullet, the all-day
  marker, a dash and the title; or the bullet, the start and the end as \<open>HH:MM\<close> and the
  title; or the bullet and the title. A location adds a second, indented line with the pin.
  The title is the placeholder when the key is missing.
\<close>

definition hh_mm :: "datetime \<Rightarrow> pystr" where
  "hh_mm dt =
     [48 + hour dt div 10, 48 + hour dt mod 10, 58, 48 + minute dt div 10,
      48 + minute dt mod 10]"

definition shown_title :: "event_data \<Rightarrow> pystr" where
  "shown_title event =
     (case e_title event of Some (JStr t) \<Rightarrow> t | _ \<Rightarrow> ascii ''Untitled'')"

definition event_lines :: "text_of \<Rightarrow> event_data \<Rightarrow> pystr list" where
  "event_lines str_of event =
     (if py_truthy (e_all_day event)
      then 0x2022 # 0x20 # 0x7D42 # 0x65E5 # ascii '' - '' @ shown_title event
      else
        (case e_start event of
           None \<Rightarrow> 0x2022 # 0x20 # shown_title event
         | Some s \<Rightarrow>
             (case e_end event of
                None \<Rightarrow> 0x2022 # 0x20 # shown_title event
              | Some e \<Rightarrow>
                  0x2022 # 0x20 # hh_mm s @ ascii '' - '' @ hh_mm e @ 0x20 # shown_title event)))
     # (if py_truthy (e_location event)
        then [0x20 # 0x20 # 0x1F4CD # 0x20 #
              (case e_location event of JStr l \<Rightarrow> l | v \<Rightarrow> str_of v)]
        else [])"

text \<open>The lines of a field, each after the first on a new line, and the size bound.\<close>

definition lines_text :: "pystr list \<Rightarrow> pystr" where
  "lines_text ls = (case ls of [] \<Rightarrow> [] | l # rest \<Rightarrow> l @ concat (map (\<lambda>x. 10 # x) rest))"

definition cut_text :: "pystr \<Rightarrow> pystr" where
  "cut_text t = (if length t \<le> 1024 then t else take 1020 t @ [46, 46, 46])"

text \<open>
  A populated block has the accent colour and one field with the rendered lines of its
  events; an empty block has the success colour and the text that says there are no events.
\<close>

definition populated_block :: "text_of \<Rightarrow> event_data list \<Rightarrow> embed \<Rightarrow> bool" where
  "populated_block str_of events block =
     (embed_color block = 0x5865F2 \<and>
      embed_description block = None \<and>
      embed_fields block =
        Some [\<lparr> field_name = [0x4E88, 0x5B9A],
                 field_value = cut_text (lines_text (concat (map (event_lines str_of) events))),
                 field_inline = False \<rparr>])"

definition empty_block :: "embed \<Rightarrow> bool" where
  "empty_block block =
     (embed_color block = 0x57F287 \<and>
      embed_description block =
        Some (42 # 42 # 0x4E88 # 0x5B9A # 0x306F # 0x3042 # 0x308A # 0x307E # 0x305B #
              0x3093 # [42, 42]) \<and>
      embed_fields block = None)"

text \<open>
  The events for which the formatter is made: the title is a string, or the key is missing.
  A \<open>datetime\<close> holds an hour below 24 and a minute below 60.
\<close>

definition title_is_text :: "event_data \<Rightarrow> bool" where
  "title_is_text event =
     (case e_title event of None \<Rightarrow> True | Some (JStr t) \<Rightarrow> True | Some _ \<Rightarrow> False)"

definition clock_time :: "datetime \<Rightarrow> bool" where
  "clock_time dt = (hour dt < 24 \<and> minute dt < 60)"

definition clock_times :: "event_data \<Rightarrow> bool" where
  "clock_times event =
     ((case e_start event of None \<Rightarrow> True | Some s \<Rightarrow> clock_time s) \<and>
      (case e_end event of None \<Rightarrow> True | Some e \<Rightarrow> clock_time e))"

section \<open>Concrete inputs\<close>

text \<open>A response with status 200 whose body is the JSON object with the given members.\<close>

definition ok_response :: "(string \<times> json) list \<Rightarrow> http_result" where
  "ok_response kvs =
     Returned \<lparr> status_code = 200, json_body = Some (JObj kvs), cookies = [] \<rparr>"

text \<open>The normalised form of a raw record that has an id, maybe a title and two times.\<close>

definition plain_event ::
  "json \<Rightarrow> json \<Rightarrow> datetime option \<Rightarrow> datetime option \<Rightarrow> event_data" where
  "plain_event i t s e =
     \<lparr> e_id = i, e_title = Some t, e_all_day = JBool False, e_location = JNull,
       e_description = JNull, e_color = JNull, e_start = s, e_end = e \<rparr>"

definition at_time :: "nat \<Rightarrow> nat \<Rightarrow> nat \<Rightarrow> nat \<Rightarrow> nat \<Rightarrow> datetime" where
  "at_time y m d h mi =
     \<lparr> year = y, month = m, day = d, hour = h, minute = mi, second = 0, microsecond = 0 \<rparr>"

text \<open>
  The first answer of the continuation scenario: two events, \<open>chunk = true\<close> and
  \<open>since = 100\<close>.
\<close>

definition first_answer :: http_result where
  "first_answer =
     ok_response
       [(''events'',
         JArr [JObj [(''id'', JInt 1), (''title'', JStr (ascii ''A'')),
                     (''start_at'', JInt 1700000000000), (''end_at'', JInt 1700003600000)],
               JObj [(''id'', JInt 2)]]),
        (''chunk'', JBool True),
        (''since'', JInt 100)]"

definition first_answer_events :: "event_data list" where
  "first_answer_events =
     [plain_event (JInt 1) (JStr (ascii ''A''))
        (Some (at_time 2023 11 14 22 13 \<lparr> second := 20 \<rparr>))
        (Some (at_time 2023 11 14 23 13 \<lparr> second := 20 \<rparr>)),
      plain_event (JInt 2) (JStr (ascii ''Untitled'')) None None]"

text \<open>A continuation answer with one more event, \<open>chunk = true\<close> and \<open>since = 200\<close>.\<close>

definition second_answer :: http_result where
  "second_answer =
     ok_response
       [(''events'', JArr [JObj [(''id'', JInt 3), (''title'', JStr (ascii ''C''))]]),
        (''chunk'', JBool True),
        (''since'', JInt 200)]"

definition second_answer_events :: "event_data list" where
  "second_answer_events = [plain_event (JInt 3) (JStr (ascii ''C'')) None None]"

text \<open>
  Three events for the filter and the window of Tuesday 3 November 2026: an all-day event
  from Monday to Wednesday, an event without a start, and a meeting on Thursday.
\<close>

definition three_day_event :: event_data where
  "three_day_event =
     (plain_event (JInt 1) (JStr (ascii ''Trip'')) (Some (at_time 2026 11 2 0 0))
        (Some (at_time 2026 11 4 0 0))) \<lparr> e_all_day := JBool True \<rparr>"

definition undated_event :: event_data where
  "undated_event = plain_event (JInt 2) (JStr (ascii ''Someday'')) None None"

definition thursday_event :: event_data where
  "thursday_event =
     plain_event (JInt 3) (JStr (ascii ''Review'')) (Some (at_time 2026 11 5 10 0))
       (Some (at_time 2026 11 5 11 0))"

text \<open>
  Events for the notifier. The stand-up of the scenario is a dictionary with a title and two
  times and no other key. The other three are as \<open>get_events\<close> builds them: an all-day
  event with a location, an event with a long title, and the event of a raw record whose
  title is the JSON \<open>null\<close>.
\<close>

definition standup :: event_data where
  "standup =
     \<lparr> e_id = JNull, e_title = Some (JStr (ascii ''Standup'')), e_all_day = JNull,
       e_location = JNull, e_description = JNull, e_color = JNull,
       e_start = Some (at_time 2026 11 5 9 0), e_end = Some (at_time 2026 11 5 9 30) \<rparr>"

definition offsite :: event_data where
  "offsite =
     (plain_event (JInt 7) (JStr (ascii ''Offsite'')) (Some (at_time 2026 11 5 0 0))
        (Some (at_time 2026 11 6 0 0)))
       \<lparr> e_all_day := JBool True, e_location := JStr (ascii ''Kyoto'') \<rparr>"


definition null_title_event :: event_data where
  "null_title_event = plain_event (JInt 1) JNull None None"

text \<open>
  The evaluations below format no value but strings, so the text of the other values is never
  asked for; this stand-in gives the empty text.
\<close>

definition no_text :: text_of where
  "no_text v = []"

text \<open>Three answers to the sign-in call, and a scraper that has not signed in.\<close>

definition signin_answer :: "int \<Rightarrow> (string \<times> pystr) list \<Rightarrow> http_result" where
  "signin_answer status cs =
     Returned \<lparr> status_code = status, json_body = None, cookies = cs \<rparr>"

definition fresh_scraper :: scraper where
  "fresh_scraper =
     \<lparr> email = ascii ''a@example.org'', password = ascii ''secret'', session_id = None,
       session_cookies = [] \<rparr>"

text \<open>A webhook that accepts every call with status 204, and one that refuses with 404.\<close>

definition accepting_post :: post where
  "accepting_post url payload =
     Returned \<lparr> status_code = 204, json_body = None, cookies = [] \<rparr>"

definition refusing_post :: post where
  "refusing_post url payload =
     Returned \<lparr> status_code = 404, json_body = None, cookies = [] \<rparr>"

section \<open>Proofs: fetching\<close>

lemma recursive_failed:
  "call_failed f \<Longrightarrow>
   get_events_recursive conv cal since (f # rest) =
     Some (Inr [], [SyncRequest cal (Some since)])"
  by (auto simp: call_failed_def recursive_except_def Let_def split: http_result.splits)

lemma initial_failed:
  "call_failed f \<Longrightarrow>
   get_events conv cal (f # rest) = Some (Inl TimeTreeScraperError, [SyncRequest cal None])"
  by (auto simp: call_failed_def get_events_except_def Let_def split: http_result.splits)

lemma chunk_pageD:
  assumes "chunk_page conv r = Some (es, s)"
  obtains response data where "r = Returned response" "status_code response = 200"
    "json_body response = Some data" "build_events conv data = Inr es"
    "py_get data ''chunk'' JNull = Inr (JBool True)" "py_get data ''since'' JNull = Inr s"
  using assms
  by (auto simp: chunk_page_def split: http_result.splits if_splits option.splits sum.splits)

text \<open>One more chunk: the call made with \<open>since\<close> adds its events to those of the rest.\<close>

lemma recursive_step:
  assumes "chunk_page conv p = Some (es, s)"
  shows "get_events_recursive conv cal since (p # script) =
    (case get_events_recursive conv cal s script of
       None \<Rightarrow> None
     | Some (Inl e, reqs) \<Rightarrow> Some (recursive_except e, SyncRequest cal (Some since) # reqs)
     | Some (Inr further, reqs) \<Rightarrow>
         Some (Inr (es @ further), SyncRequest cal (Some since) # reqs))"
  using assms by (elim chunk_pageD) (simp add: Let_def)

lemma initial_step:
  assumes "chunk_page conv p = Some (es, s)" and "py_truthy s"
  shows "get_events conv cal (p # script) =
    (case get_events_recursive conv cal s script of
       None \<Rightarrow> None
     | Some (Inl e, reqs) \<Rightarrow> Some (get_events_except e, SyncRequest cal None # reqs)
     | Some (Inr further, reqs) \<Rightarrow> Some (Inr (es @ further), SyncRequest cal None # reqs))"
  using assms by (elim chunk_pageD) (simp add: Let_def)

text \<open>
  Any number of chunks and then a failed call: the recursion returns the events of the
  chunks, in order, and has called once per chunk and once more.
\<close>

lemma recursive_pages:
  "list_all2 (\<lambda>r x. chunk_page conv r = Some x) ps xs \<Longrightarrow> call_failed f \<Longrightarrow>
   get_events_recursive conv cal since (ps @ f # rest) =
     Some (Inr (concat (map fst xs)), map (\<lambda>c. SyncRequest cal (Some c)) (since # map snd xs))"
proof (induction ps xs arbitrary: since rule: list_all2_induct)
  case Nil
  then show ?case by (simp add: recursive_failed del: get_events_recursive.simps)
next
  case (Cons p ps x xs)
  obtain es s where x: "x = (es, s)" by (cases x)
  from Cons.hyps(1) x have p: "chunk_page conv p = Some (es, s)" by simp
  show ?case
    using Cons.IH [OF Cons.prems, of s]
    by (simp add: recursive_step [OF p] x del: get_events_recursive.simps)
qed

lemma first_answer_page:
  "chunk_page fromtimestamp_utc first_answer = Some (first_answer_events, JInt 100)"
  by (simp add: chunk_page_def first_answer_def first_answer_events_def ok_response_def
      plain_event_def at_time_def build_events_def parse_time_def float_overflow_def
      fromtimestamp_utc_def round_half_even_def ord2ymd_def days_in_month_def Let_def)

lemma second_answer_page:
  "chunk_page fromtimestamp_utc second_answer = Some (second_answer_events, JInt 200)"
  by (simp add: chunk_page_def second_answer_def second_answer_events_def ok_response_def
      plain_event_def build_events_def parse_time_def)

text \<open>
  Claim C1. The failure policy of the fetch is asymmetric. When the initial sync call fails
  (transport error, status other than 200, unparseable body), \<open>get_events\<close> raises
  \<open>TimeTreeScraperError\<close>. When a continuation call fails in one of these ways, the failure is
  swallowed: the call returns no events and raises nothing, so that after a first successful
  answer and any number of successful continuation answers the result is exactly the events
  of the successful calls, in order.
\<close>

theorem get_events_failure_policy:
  assumes "call_failed f"
  shows "get_events conv cal (f # rest) =
      Some (Inl TimeTreeScraperError, [SyncRequest cal None]) \<and>
    get_events_recursive conv cal since (f # rest) =
      Some (Inr [], [SyncRequest cal (Some since)]) \<and>
    (chunk_page conv p = Some (es, s) \<and> py_truthy s \<and>
     list_all2 (\<lambda>r x. chunk_page conv r = Some x) ps xs \<longrightarrow>
       get_events conv cal (p # ps @ f # rest) =
         Some (Inr (es @ concat (map fst xs)),
               SyncRequest cal None # map (\<lambda>c. SyncRequest cal (Some c)) (s # map snd xs)))"
proof (intro conjI impI)
  show "get_events conv cal (f # rest) =
      Some (Inl TimeTreeScraperError, [SyncRequest cal None])"
    using assms by (rule initial_failed)
  show "get_events_recursive conv cal since (f # rest) =
      Some (Inr [], [SyncRequest cal (Some since)])"
    using assms by (rule recursive_failed)
next
  assume h: "chunk_page conv p = Some (es, s) \<and> py_truthy s \<and>
     list_all2 (\<lambda>r x. chunk_page conv r = Some x) ps xs"
  then have p: "chunk_page conv p = Some (es, s)" and t: "py_truthy s"
    and l: "list_all2 (\<lambda>r x. chunk_page conv r = Some x) ps xs"
    by blast+
  have r: "get_events_recursive conv cal s (ps @ f # rest) =
     Some (Inr (concat (map fst xs)), map (\<lambda>c. SyncRequest cal (Some c)) (s # map snd xs))"
    using l assms by (rule recursive_pages)
  show "get_events conv cal (p # ps @ f # rest) =
         Some (Inr (es @ concat (map fst xs)),
               SyncRequest cal None # map (\<lambda>c. SyncRequest cal (Some c)) (s # map snd xs))"
    unfolding initial_step [OF p t] r by simp
qed

text \<open>
  The scenario of the specification: the first call returns two events with \<open>chunk = true\<close>
  and \<open>since = 100\<close>, the second call fails with a transport error. The result is the two
  events, and the second call carried the cursor.
\<close>

theorem get_events_failure_policy_witness:
  "call_failed Raised \<and>
   get_events fromtimestamp_utc (ascii ''cal'') [Raised] =
     Some (Inl TimeTreeScraperError, [SyncRequest (ascii ''cal'') None]) \<and>
   get_events fromtimestamp_utc (ascii ''cal'') [first_answer, Raised] =
     Some (Inr first_answer_events,
           [SyncRequest (ascii ''cal'') None, SyncRequest (ascii ''cal'') (Some (JInt 100))]) \<and>
   get_events fromtimestamp_utc (ascii ''cal'') [first_answer, second_answer, Raised] =
     Some (Inr (first_answer_events @ second_answer_events),
           [SyncRequest (ascii ''cal'') None, SyncRequest (ascii ''cal'') (Some (JInt 100)),
            SyncRequest (ascii ''cal'') (Some (JInt 200))])"
proof -
  have f: "call_failed Raised" by (simp add: call_failed_def)
  have l: "list_all2 (\<lambda>r x. chunk_page fromtimestamp_utc r = Some x) [second_answer]
      [(second_answer_events, JInt 200)]"
    by (simp add: second_answer_page)
  show ?thesis
    using get_events_failure_policy [OF f, of fromtimestamp_utc "ascii ''cal''" "[]" JNull
        first_answer first_answer_events "JInt 100" "[]" "[]"]
      get_events_failure_policy [OF f, of fromtimestamp_utc "ascii ''cal''" "[]" JNull
        first_answer first_answer_events "JInt 100" "[second_answer]"
        "[(second_answer_events, JInt 200)]"]
      first_answer_page l f
    by (simp del: get_events.simps get_events_recursive.simps)
qed

text \<open>
  Claim C4. A raw record with \<open>start_at = 0\<close> should normalise to the epoch instant in local
  time. The code tests the value for truth before it converts it, and 0 is falsy: the record
  comes out with no start at all, on every platform, also on one that converts the timestamp
  0 to 1 January 1970.
\<close>

theorem start_at_zero_has_no_start:
  "get_events conv cal
     [ok_response [(''events'', JArr [JObj [(''id'', JInt 1), (''start_at'', JInt 0)]])]] =
     Some (Inr [plain_event (JInt 1) (JStr (ascii ''Untitled'')) None None],
           [SyncRequest cal None]) \<and>
   truediv_1000 (JInt 0) = Inr (Finite 0) \<and>
   fromtimestamp_utc (Finite 0) = Inr (at_time 1970 1 1 0 0)"
  by (simp add: ok_response_def plain_event_def at_time_def build_events_def parse_time_def
      float_overflow_def fromtimestamp_utc_def round_half_even_def ord2ymd_def
      days_in_month_def Let_def)

text \<open>
  Claim C6. A continuation call should be made only when the previous answer has
  \<open>chunk = true\<close> and a \<open>since\<close> cursor, in every round. \<open>get_events\<close> tests the cursor after
  the first answer; \<open>_get_events_recursive\<close> does not. The second answer below has
  \<open>chunk = true\<close> and no cursor, and a third call is made, with \<open>None\<close> as its cursor.
\<close>

theorem continuation_without_cursor:
  "get_events conv cal
     [ok_response [(''events'', JArr []), (''chunk'', JBool True), (''since'', JInt 100)],
      ok_response [(''events'', JArr []), (''chunk'', JBool True)],
      ok_response [(''events'', JArr [])]] =
     Some (Inr [],
           [SyncRequest cal None, SyncRequest cal (Some (JInt 100)),
            SyncRequest cal (Some JNull)])"
  by (simp add: ok_response_def build_events_def Let_def)

text \<open>
  Claim C7. A malformed timestamp should never make normalisation raise. The handler around
  the conversion catches \<open>TypeError\<close> and \<open>ValueError\<close> only. An integer too large for a
  \<open>float\<close> raises \<open>OverflowError\<close> in the division, on every platform, and a timestamp beyond
  \<open>time_t\<close> raises it in the conversion; the exception leaves \<open>get_events\<close>, and the second
  record of the batch is lost with the first.
\<close>

theorem huge_timestamp_aborts_batch:
  "get_events conv cal
     [ok_response
        [(''events'',
          JArr [JObj [(''id'', JInt 1), (''start_at'', JInt (10 ^ 400))],
                JObj [(''id'', JInt 2)]])]] =
     Some (Inl OverflowError, [SyncRequest cal None]) \<and>
   get_events fromtimestamp_utc cal
     [ok_response
        [(''events'',
          JArr [JObj [(''id'', JInt 1), (''start_at'', JFloat (Finite (10 ^ 30)))],
                JObj [(''id'', JInt 2)]])]] =
     Some (Inl OverflowError, [SyncRequest cal None])"
  by (simp add: ok_response_def build_events_def parse_time_def float_overflow_def
      get_events_except_def fromtimestamp_utc_def round_half_even_def Let_def)

text \<open>
  What does hold: a timestamp of the wrong type, and one that the conversion rejects with
  \<open>ValueError\<close>, is recorded as \<open>None\<close>.
\<close>

lemma parse_time_wrong_type:
  "parse_time conv (JStr s) = Inr None \<and> parse_time conv (JArr xs) = Inr None \<and>
   parse_time conv (JObj kvs) = Inr None"
  by (simp add: parse_time_def)

lemma parse_time_ValueError:
  "truediv_1000 v = Inr x \<Longrightarrow> conv x = Inl ValueError \<Longrightarrow> parse_time conv v = Inr None"
  by (simp add: parse_time_def)

section \<open>Proofs: signing in\<close>

text \<open>
  Claim C5. Sign-in succeeds only with status 200 and a session token in the response. A
  transport error, a status other than 200, and status 200 without the token each raise
  \<open>LoginError\<close>; nothing else is ever raised, and a success stores the token.
\<close>

theorem login_policy:
  "fst (login Raised self) = Inl LoginError \<and>
   (status_code resp \<noteq> 200 \<longrightarrow> fst (login (Returned resp) self) = Inl LoginError) \<and>
   (status_code resp = 200 \<and> map_of (cookies resp) ''_session_id'' = None \<longrightarrow>
      fst (login (Returned resp) self) = Inl LoginError) \<and>
   (fst (login r self) = Inr () \<longrightarrow>
      (\<exists>response sid. r = Returned response \<and> status_code response = 200 \<and>
         map_of (cookies response) ''_session_id'' = Some sid \<and>
         session_id (snd (login r self)) = Some sid)) \<and>
   fst (login r self) = (if signin_ok r then Inr () else Inl LoginError)"
  by (auto simp: login_def signin_ok_def Let_def
      split: http_result.splits option.splits if_splits)

theorem login_policy_witness:
  "fst (login (signin_answer 200 [(''_session_id'', ascii ''abc'')]) fresh_scraper) = Inr () \<and>
   session_id (snd (login (signin_answer 200 [(''_session_id'', ascii ''abc'')]) fresh_scraper)) =
     Some (ascii ''abc'') \<and>
   fst (login (signin_answer 200 []) fresh_scraper) = Inl LoginError \<and>
   fst (login (signin_answer 401 [(''_session_id'', ascii ''abc'')]) fresh_scraper) =
     Inl LoginError"
  using login_policy [of fresh_scraper "\<lparr> status_code = 200, json_body = None, cookies = [] \<rparr>"
      "signin_answer 200 [(''_session_id'', ascii ''abc'')]"]
    login_policy [of fresh_scraper
      "\<lparr> status_code = 401, json_body = None, cookies = [(''_session_id'', ascii ''abc'')] \<rparr>"
      Raised]
  by (simp add: signin_answer_def signin_ok_def ascii_def)

section \<open>Proofs: the date filter\<close>

lemma filter_loop_filter:
  "filter_loop ws we evs acc =
     acc @ filter (\<lambda>e. starts_in_window ws we e \<or> all_day_overlap ws we e) evs"
  by (induction evs arbitrary: acc)
     (auto simp: starts_in_window_def all_day_overlap_def split: option.splits)

text \<open>
  Claim C2. For every event list and window the filter keeps exactly the events that start
  in the window or that are all-day events starting no later than the end of the window and
  ending after its start, in their order; an event without a start is kept by neither rule.
\<close>

theorem filter_events_rules:
  "filter_events ws we evs =
     filter (\<lambda>e. starts_in_window ws we e \<or> all_day_overlap ws we e) evs \<and>
   (e \<in> set (filter_events ws we evs) \<longleftrightarrow>
      e \<in> set evs \<and> (starts_in_window ws we e \<or> all_day_overlap ws we e)) \<and>
   (e_start e = None \<longrightarrow>
      \<not> starts_in_window ws we e \<and> \<not> all_day_overlap ws we e \<and>
      e \<notin> set (filter_events ws we evs))"
  by (auto simp: filter_events_def filter_loop_filter starts_in_window_def
      all_day_overlap_def)

theorem filter_events_rules_witness:
  "filter_events (at_time 2026 11 3 0 0) (at_time 2026 11 4 0 0)
     [three_day_event, undated_event, thursday_event] = [three_day_event] \<and>
   all_day_overlap (at_time 2026 11 3 0 0) (at_time 2026 11 4 0 0) three_day_event \<and>
   \<not> starts_in_window (at_time 2026 11 3 0 0) (at_time 2026 11 4 0 0) three_day_event \<and>
   e_start undated_event = None \<and>
   undated_event \<notin> set (filter_events (at_time 2026 11 3 0 0) (at_time 2026 11 4 0 0)
     [three_day_event, undated_event, thursday_event])"
  using filter_events_rules [of "at_time 2026 11 3 0 0" "at_time 2026 11 4 0 0"
      "[three_day_event, undated_event, thursday_event]" undated_event]
  by (simp add: starts_in_window_def all_day_overlap_def three_day_event_def
      undated_event_def thursday_event_def plain_event_def at_time_def dt_le_def dt_lt_def
      dt_key_def)

text \<open>
  Claim C9. For every event list and every window, filtering twice with the same window
  gives what filtering once gives.
\<close>

theorem filter_events_idempotent:
  "filter_events ws we (filter_events ws we evs) = filter_events ws we evs"
  by (simp add: filter_events_def filter_loop_filter)

theorem filter_events_idempotent_witness:
  "filter_events (at_time 2026 11 3 0 0) (at_time 2026 11 4 0 0)
     (filter_events (at_time 2026 11 3 0 0) (at_time 2026 11 4 0 0)
        [three_day_event, undated_event, thursday_event]) = [three_day_event]"
  using filter_events_idempotent [of "at_time 2026 11 3 0 0" "at_time 2026 11 4 0 0"
      "[three_day_event, undated_event, thursday_event]"]
  by (simp add: filter_events_def three_day_event_def undated_event_def thursday_event_def
      plain_event_def at_time_def dt_le_def dt_lt_def dt_key_def)

section \<open>Proofs: the notifier\<close>

lemma two_digits_below_100:
  "n < 100 \<Longrightarrow> two_digits n = [48 + n div 10, 48 + n mod 10]"
proof (cases "n < 10")
  case True
  then show ?thesis by (simp add: two_digits_def str_nat.simps)
next
  case False
  assume "n < 100"
  with False have "n div 10 < 10" by simp
  with False show ?thesis
    by (simp add: two_digits_def str_nat.simps [of n] str_nat.simps [of "n div 10"])
qed

lemma format_time_hh_mm: "clock_time dt \<Longrightarrow> format_time dt = hh_mm dt"
  by (simp add: clock_time_def format_time_def hh_mm_def two_digits_below_100 ascii_def)

lemma join_lines_lines_text: "join_lines ls = lines_text ls"
  by (induction ls rule: join_lines.induct) (simp_all add: lines_text_def)

lemma join_lines_append:
  "xs \<noteq> [] \<Longrightarrow> ys \<noteq> [] \<Longrightarrow> join_lines (xs @ ys) = join_lines xs @ [10] @ join_lines ys"
proof (induction xs rule: join_lines.induct)
  case (2 l)
  then show ?case by (cases ys) simp_all
qed simp_all

text \<open>Joining the texts of the events is joining all their lines.\<close>

lemma join_lines_concat:
  "\<forall>ls \<in> set lss. ls \<noteq> [] \<Longrightarrow> join_lines (map join_lines lss) = join_lines (concat lss)"
proof (induction lss)
  case Nil
  then show ?case by simp
next
  case (Cons ls lss)
  show ?case
  proof (cases "lss = []")
    case True
    then show ?thesis by simp
  next
    case False
    then obtain m ms where lss: "lss = m # ms" by (cases lss) auto
    with Cons.prems have ne: "ls \<noteq> []" "concat lss \<noteq> []" by auto
    have "join_lines (map join_lines (ls # lss)) =
        join_lines ls @ [10] @ join_lines (map join_lines lss)"
      by (simp add: lss)
    also have "\<dots> = join_lines ls @ [10] @ join_lines (concat lss)"
      using Cons by simp
    also have "\<dots> = join_lines (concat (ls # lss))"
      using ne by (simp add: join_lines_append)
    finally show ?thesis .
  qed
qed

lemma with_title_text:
  "title_is_text event \<Longrightarrow> with_title prefix (e_title event) = Inr (prefix @ shown_title event)"
  by (auto simp: title_is_text_def shown_title_def split: option.splits json.splits)

text \<open>On an event with a string title the formatter gives the lines of the specification.\<close>

lemma format_event_lines:
  assumes "title_is_text event" and "clock_times event"
  shows "format_event str_of event = Inr (join_lines (event_lines str_of event))"
proof -
  have v: "format_value str_of (e_location event) =
      (case e_location event of JStr l \<Rightarrow> l | v \<Rightarrow> str_of v)"
    by (simp add: format_value_def split: json.splits)
  show ?thesis
    using assms
    by (auto simp: format_event_def event_lines_def with_title_text v clock_times_def
        format_time_hh_mm ascii_def split: option.splits)
qed

lemma format_event_total:
  "title_is_text event \<Longrightarrow> \<exists>t. format_event str_of event = Inr t"
  by (auto simp: format_event_def with_title_text split: option.splits)

lemma collect_map_Inr: "collect (map (\<lambda>x. Inr (f x)) xs) = Inr (map f xs)"
  by (induction xs) simp_all

lemma collect_Inr:
  "\<forall>x \<in> set xs. \<exists>v. f x = Inr v \<Longrightarrow> \<exists>vs. collect (map f xs) = Inr vs"
  by (induction xs) auto


lemma collect_map_cong:
  "\<forall>x \<in> set xs. f x = Inr (g x) \<Longrightarrow> collect (map f xs) = Inr (map g xs)"
  by (induction xs) simp_all

lemma limit_field_value_cut: "limit_field_value t = cut_text t"
  by (auto simp: limit_field_value_def cut_text_def ascii_def)

lemma event_lines_nonempty: "event_lines str_of event \<noteq> []"
  by (simp add: event_lines_def)

lemma render_events_lines:
  assumes "\<forall>e \<in> set events. title_is_text e \<and> clock_times e"
  shows "render_events str_of events =
    Inr (cut_text (lines_text (concat (map (event_lines str_of) events))))"
proof -
  have "collect (map (format_event str_of) events) =
      Inr (map (\<lambda>e. join_lines (event_lines str_of e)) events)"
    using assms by (intro collect_map_cong) (simp add: format_event_lines)
  moreover have "join_lines (map (\<lambda>e. join_lines (event_lines str_of e)) events) =
      join_lines (concat (map (event_lines str_of) events))"
    using join_lines_concat [of "map (event_lines str_of) events"]
    by (simp add: event_lines_nonempty comp_def)
  ultimately show ?thesis
    by (simp add: render_events_def limit_field_value_cut join_lines_lines_text)
qed

lemma render_events_total:
  "\<forall>e \<in> set events. title_is_text e \<Longrightarrow> \<exists>t. render_events str_of events = Inr t"
  using collect_Inr [of events "format_event str_of"]
  by (auto simp: render_events_def format_event_total)

lemma daily_embed_block:
  assumes "\<forall>e \<in> set events. title_is_text e \<and> clock_times e"
  shows "\<exists>b. daily_embed str_of heading date_str events current_date = Inr b \<and>
    embed_title b = heading @ date_str \<and>
    (if events = [] then empty_block b else populated_block str_of events b)"
  using assms
  by (simp add: daily_embed_def render_events_lines populated_block_def empty_block_def
      accent_color_def success_color_def no_events_text_def ascii_def)

lemma daily_embed_total:
  "\<forall>e \<in> set events. title_is_text e \<Longrightarrow>
   \<exists>b. daily_embed str_of heading date_str events current_date = Inr b"
  using render_events_total [of events str_of] by (auto simp: daily_embed_def)

lemma create_daily_embeds_total:
  assumes "\<forall>e \<in> set today \<union> set tomorrow. title_is_text e"
  shows "\<exists>bs. create_daily_embeds str_of today tomorrow cur tom = Inr bs"
proof -
  from assms daily_embed_total [of today str_of today_heading "format_date cur" cur]
  obtain b0 where "daily_embed str_of today_heading (format_date cur) today cur = Inr b0"
    by auto
  moreover from assms
    daily_embed_total [of tomorrow str_of tomorrow_heading "format_date tom" cur]
  obtain b1 where
    "daily_embed str_of tomorrow_heading (format_date tom) tomorrow cur = Inr b1"
    by auto
  ultimately show ?thesis by (simp add: create_daily_embeds_def)
qed

lemma add_to_date_events:
  "set (concat (map snd (add_to_date k e bs))) = insert e (set (concat (map snd bs)))"
  by (induction k e bs rule: add_to_date.induct) auto

lemma foldl_add_to_date_events:
  "set (concat (map snd (foldl (\<lambda>acc ev. add_to_date (key ev) ev acc) bs xs))) =
     set xs \<union> set (concat (map snd bs))"
proof (induction xs arbitrary: bs)
  case Nil
  then show ?case by simp
next
  case (Cons x xs)
  show ?case
    unfolding foldl_Cons Cons.IH add_to_date_events by auto
qed

text \<open>The events of a date are events of the list that was grouped.\<close>

lemma group_by_date_events:
  assumes "item \<in> set (group_by_date now events)"
  shows "set (snd item) \<subseteq> set events"
proof -
  have "set (concat (map snd (group_by_date now events))) = set events"
    unfolding group_by_date_def foldl_add_to_date_events by (simp add: sort_by_start_def)
  moreover from assms have "set (snd item) \<subseteq> set (concat (map snd (group_by_date now events)))"
    by auto
  ultimately show ?thesis by simp
qed

lemma date_field_total:
  "\<forall>e \<in> set (snd item). title_is_text e \<Longrightarrow> \<exists>f. date_field str_of item = Inr f"
  using render_events_total [of "snd item" str_of] by (auto simp: date_field_def)

lemma create_embeds_total:
  assumes "\<forall>e \<in> set events. title_is_text e"
  shows "\<exists>bs. create_embeds str_of now events = Inr bs"
proof -
  have "\<forall>item \<in> set (sort_key fst (group_by_date now events)).
      \<exists>f. date_field str_of item = Inr f"
  proof
    fix item
    assume "item \<in> set (sort_key fst (group_by_date now events))"
    then have "item \<in> set (group_by_date now events)" by simp
    from group_by_date_events [OF this] assms
    have "\<forall>e \<in> set (snd item). title_is_text e" by auto
    then show "\<exists>f. date_field str_of item = Inr f" by (rule date_field_total)
  qed
  from collect_Inr [OF this] show ?thesis
    by (auto simp: create_embeds_def)
qed


lemma post_payload_results:
  "post_payload post url payload \<in> {Inr True, Inl DiscordNotifierError}"
  by (simp add: post_payload_def split: http_result.splits)

lemma null_title_from_get_events:
  "get_events conv cal
     [ok_response [(''events'', JArr [JObj [(''id'', JInt 1), (''title'', JNull)]])]] =
     Some (Inr [null_title_event], [SyncRequest cal None])"
  by (simp add: ok_response_def null_title_event_def plain_event_def build_events_def
      parse_time_def Let_def)





text \<open>
  Claim C8, as the specification states it, fails: it speaks of every pair of event lists,
  and the formatter raises \<open>TypeError\<close> on an event whose title is not a string, such as the
  one that \<open>get_events\<close> builds from a raw record with the title \<open>null\<close>. No block is built
  then.
\<close>

theorem null_title_builds_no_digest:
  "create_daily_embeds no_text [null_title_event] [] (at_time 2026 11 4 7 0)
     (at_time 2026 11 5 7 0) = Inl TypeError \<and>
   create_daily_embeds no_text [] [standup, null_title_event] (at_time 2026 11 4 7 0)
     (at_time 2026 11 5 7 0) = Inl TypeError"
  by (simp add: create_daily_embeds_def daily_embed_def render_events_def format_event_def
      null_title_event_def standup_def plain_event_def Let_def)

text \<open>
  Claim C8, amended. For every pair of event lists whose events have a string for a title,
  or no title key, the daily digest has exactly two blocks, the one for today first and the
  one for tomorrow second. Each block is populated (accent colour, one field with the
  rendered lines of its events, as the specification describes them) when its list has
  events and empty (success colour, the text that says there are no events) when it has
  none, whatever the other list is; no block is both. A timed event from 09:00 to 09:30 with
  the title Standup and no location is rendered as the bullet followed by
  \<open> 09:00 - 09:30 Standup\<close>. The hypothesis on the times holds of every \<open>datetime\<close> that
  Python builds.
\<close>

theorem daily_digest_blocks:
  assumes "\<forall>e \<in> set today \<union> set tomorrow. title_is_text e \<and> clock_times e"
  shows "(\<exists>b0 b1.
        create_daily_embeds str_of today tomorrow cur tom = Inr [b0, b1] \<and>
        embed_title b0 =
          [0x1F4C5, 0x20, 0x4ECA, 0x65E5, 0x306E, 0x4E88, 0x5B9A, 0x20, 0x2D, 0x20] @
          format_date cur \<and>
        embed_title b1 =
          [0x1F4C5, 0x20, 0x660E, 0x65E5, 0x306E, 0x4E88, 0x5B9A, 0x20, 0x2D, 0x20] @
          format_date tom \<and>
        (if today = [] then empty_block b0 else populated_block str_of today b0) \<and>
        (if tomorrow = [] then empty_block b1 else populated_block str_of tomorrow b1)) \<and>
    \<not> (populated_block str_of evs b \<and> empty_block b) \<and>
    (e_title ev = Some (JStr (ascii ''Standup'')) \<and> \<not> py_truthy (e_all_day ev) \<and>
     \<not> py_truthy (e_location ev) \<and> e_start ev = Some s \<and> e_end ev = Some e \<and>
     hour s = 9 \<and> minute s = 0 \<and> hour e = 9 \<and> minute e = 30 \<longrightarrow>
       format_event str_of ev = Inr (0x2022 # ascii '' 09:00 - 09:30 Standup''))"
proof (intro conjI impI)
  from assms have t: "\<forall>e \<in> set today. title_is_text e \<and> clock_times e"
    and m: "\<forall>e \<in> set tomorrow. title_is_text e \<and> clock_times e"
    by auto
  from daily_embed_block [OF t, of str_of today_heading "format_date cur" cur]
  obtain b0 where b0: "daily_embed str_of today_heading (format_date cur) today cur = Inr b0"
    "embed_title b0 = today_heading @ format_date cur"
    "if today = [] then empty_block b0 else populated_block str_of today b0"
    by blast
  from daily_embed_block [OF m, of str_of tomorrow_heading "format_date tom" cur]
  obtain b1 where b1:
    "daily_embed str_of tomorrow_heading (format_date tom) tomorrow cur = Inr b1"
    "embed_title b1 = tomorrow_heading @ format_date tom"
    "if tomorrow = [] then empty_block b1 else populated_block str_of tomorrow b1"
    by blast
  have "create_daily_embeds str_of today tomorrow cur tom = Inr [b0, b1]"
    by (simp add: create_daily_embeds_def b0(1) b1(1))
  with b0 b1 show "\<exists>b0 b1.
        create_daily_embeds str_of today tomorrow cur tom = Inr [b0, b1] \<and>
        embed_title b0 =
          [0x1F4C5, 0x20, 0x4ECA, 0x65E5, 0x306E, 0x4E88, 0x5B9A, 0x20, 0x2D, 0x20] @
          format_date cur \<and>
        embed_title b1 =
          [0x1F4C5, 0x20, 0x660E, 0x65E5, 0x306E, 0x4E88, 0x5B9A, 0x20, 0x2D, 0x20] @
          format_date tom \<and>
        (if today = [] then empty_block b0 else populated_block str_of today b0) \<and>
        (if tomorrow = [] then empty_block b1 else populated_block str_of tomorrow b1)"
    by (auto simp: today_heading_def tomorrow_heading_def)
next
  show "\<not> (populated_block str_of evs b \<and> empty_block b)"
    by (simp add: populated_block_def empty_block_def)
next
  assume h: "e_title ev = Some (JStr (ascii ''Standup'')) \<and> \<not> py_truthy (e_all_day ev) \<and>
     \<not> py_truthy (e_location ev) \<and> e_start ev = Some s \<and> e_end ev = Some e \<and>
     hour s = 9 \<and> minute s = 0 \<and> hour e = 9 \<and> minute e = 30"
  have nine: "two_digits 9 = ascii ''09''" and zero: "two_digits 0 = ascii ''00''"
    and thirty: "two_digits 30 = ascii ''30''"
    by (simp_all add: two_digits_def str_nat.simps ascii_def)
  from h show "format_event str_of ev = Inr (0x2022 # ascii '' 09:00 - 09:30 Standup'')"
    by (simp add: format_event_def format_time_def nine zero thirty ascii_def)
qed

text \<open>
  The scenario of the specification, no event today and the stand-up tomorrow, and a day
  with two events of which the first has a location.
\<close>

theorem daily_digest_blocks_witness:
  "title_is_text standup \<and> clock_times standup \<and> title_is_text offsite \<and>
   clock_times offsite \<and>
   map_sum id (map embed_color)
     (create_daily_embeds no_text [] [standup] (at_time 2026 11 4 7 0)
        (at_time 2026 11 5 7 0)) = Inr [0x57F287, 0x5865F2] \<and>
   map_sum id (map embed_fields)
     (create_daily_embeds no_text [] [standup] (at_time 2026 11 4 7 0)
        (at_time 2026 11 5 7 0)) =
     Inr [None,
          Some [\<lparr> field_name = [0x4E88, 0x5B9A],
                   field_value = 0x2022 # ascii '' 09:00 - 09:30 Standup'',
                   field_inline = False \<rparr>]] \<and>
   map_sum id (map embed_fields)
     (create_daily_embeds no_text [offsite, standup] [] (at_time 2026 11 5 7 0)
        (at_time 2026 11 6 7 0)) =
     Inr [Some [\<lparr> field_name = [0x4E88, 0x5B9A],
                   field_value =
                     [0x2022, 0x20, 0x7D42, 0x65E5] @ ascii '' - Offsite'' @ [10] @
                     ascii ''  '' @ [0x1F4CD] @ ascii '' Kyoto'' @ [10, 0x2022] @
                     ascii '' 09:00 - 09:30 Standup'',
                   field_inline = False \<rparr>],
          None]"
proof -
  have ok: "title_is_text standup" "clock_times standup" "title_is_text offsite"
    "clock_times offsite"
    by (simp_all add: title_is_text_def clock_times_def clock_time_def standup_def
        offsite_def plain_event_def at_time_def)
  from ok have a: "\<forall>e \<in> set [] \<union> set [standup]. title_is_text e \<and> clock_times e"
    and b: "\<forall>e \<in> set [offsite, standup] \<union> set []. title_is_text e \<and> clock_times e"
    by simp_all
  from daily_digest_blocks [OF a, of no_text "at_time 2026 11 4 7 0" "at_time 2026 11 5 7 0",
      THEN conjunct1]
  obtain a0 a1 where a01:
    "create_daily_embeds no_text [] [standup] (at_time 2026 11 4 7 0)
       (at_time 2026 11 5 7 0) = Inr [a0, a1]"
    "empty_block a0" "populated_block no_text [standup] a1"
    by auto
  from daily_digest_blocks [OF b, of no_text "at_time 2026 11 5 7 0" "at_time 2026 11 6 7 0",
      THEN conjunct1]
  obtain c0 c1 where c01:
    "create_daily_embeds no_text [offsite, standup] [] (at_time 2026 11 5 7 0)
       (at_time 2026 11 6 7 0) = Inr [c0, c1]"
    "populated_block no_text [offsite, standup] c0" "empty_block c1"
    by auto
  from a01(2,3) c01(2,3) have "map_sum id (map embed_color) (Inr [a0, a1]) =
      Inr [0x57F287, 0x5865F2] \<and>
    map_sum id (map embed_fields) (Inr [a0, a1]) =
      Inr [None,
           Some [\<lparr> field_name = [0x4E88, 0x5B9A],
                    field_value = 0x2022 # ascii '' 09:00 - 09:30 Standup'',
                    field_inline = False \<rparr>]] \<and>
    map_sum id (map embed_fields) (Inr [c0, c1]) =
      Inr [Some [\<lparr> field_name = [0x4E88, 0x5B9A],
                    field_value =
                      [0x2022, 0x20, 0x7D42, 0x65E5] @ ascii '' - Offsite'' @ [10] @
                      ascii ''  '' @ [0x1F4CD] @ ascii '' Kyoto'' @ [10, 0x2022] @
                      ascii '' 09:00 - 09:30 Standup'',
                    field_inline = False \<rparr>],
           None]"
    by (simp add: populated_block_def empty_block_def event_lines_def lines_text_def
        cut_text_def hh_mm_def shown_title_def standup_def offsite_def plain_event_def
        at_time_def ascii_def)
  with ok show ?thesis
    unfolding a01(1) c01(1) by simp
qed

text \<open>
  Claim C10, as it is stated, fails: the daily and the weekly sender build their payload
  before the \<open>try\<close>, and on the event with the \<open>null\<close> title the formatter raises
  \<open>TypeError\<close>, which is neither \<open>True\<close> nor \<open>DiscordNotifierError\<close>.
\<close>

theorem null_title_raises_TypeError:
  "send_daily_notification accepting_post (ascii ''hook'') no_text [null_title_event] []
     (at_time 2026 11 4 7 0) (at_time 2026 11 5 7 0) = Inl TypeError \<and>
   send_events accepting_post (ascii ''hook'') no_text (at_time 2026 11 4 7 0)
     [null_title_event] = Inl TypeError"
  by (simp add: send_daily_notification_def send_events_def create_daily_embeds_def
      daily_embed_def create_embeds_def group_by_date_def sort_by_start_def date_field_def
      render_events_def format_event_def null_title_event_def plain_event_def Let_def)

text \<open>
  Claim C10, amended. The raw sender always, and the daily and the weekly sender on events
  whose title is a string or missing, return \<open>True\<close> or raise \<open>DiscordNotifierError\<close>,
  whatever the webhook does. None of the three ever returns \<open>False\<close>, on any input.
\<close>

theorem send_results:
  "send_raw post url content username \<in> {Inr True, Inl DiscordNotifierError} \<and>
   ((\<forall>e \<in> set today \<union> set tomorrow. title_is_text e) \<longrightarrow>
      send_daily_notification post url str_of today tomorrow cur tom \<in>
        {Inr True, Inl DiscordNotifierError}) \<and>
   ((\<forall>e \<in> set events. title_is_text e) \<longrightarrow>
      send_events post url str_of now events \<in> {Inr True, Inl DiscordNotifierError}) \<and>
   send_daily_notification post url str_of today tomorrow cur tom \<noteq> Inr False \<and>
   send_events post url str_of now events \<noteq> Inr False \<and>
   send_raw post url content username \<noteq> Inr False"
proof -
  have p: "post_payload post url payload \<noteq> Inr False" for payload
    using post_payload_results [of post url payload] by auto
  have raw: "send_raw post url content username \<in> {Inr True, Inl DiscordNotifierError}"
    unfolding send_raw_def by (rule post_payload_results)
  have daily: "send_daily_notification post url str_of today tomorrow cur tom \<in>
      {Inr True, Inl DiscordNotifierError}"
    if "\<forall>e \<in> set today \<union> set tomorrow. title_is_text e"
  proof -
    from create_daily_embeds_total [OF that, of str_of cur tom]
    obtain bs where "create_daily_embeds str_of today tomorrow cur tom = Inr bs"
      by blast
    then show ?thesis
      using post_payload_results [of post url "Embeds bs"]
      by (simp add: send_daily_notification_def)
  qed
  have weekly: "send_events post url str_of now events \<in> {Inr True, Inl DiscordNotifierError}"
    if "\<forall>e \<in> set events. title_is_text e"
  proof (cases "events = []")
    case True
    then show ?thesis
      using post_payload_results [of post url "Embeds [no_events_embed now]"]
      by (simp add: send_events_def)
  next
    case False
    from create_embeds_total [OF that, of str_of now]
    obtain bs where "create_embeds str_of now events = Inr bs" by blast
    with False show ?thesis
      using post_payload_results [of post url "Embeds bs"]
      by (simp add: send_events_def)
  qed
  have never: "send_daily_notification post url str_of today tomorrow cur tom \<noteq> Inr False"
    "send_events post url str_of now events \<noteq> Inr False"
    "send_raw post url content username \<noteq> Inr False"
    using p by (auto simp: send_daily_notification_def send_events_def send_raw_def
        split: sum.splits)
  from raw daily weekly never show ?thesis by blast
qed

theorem send_results_witness:
  "title_is_text standup \<and>
   send_daily_notification accepting_post (ascii ''hook'') no_text [] [standup]
     (at_time 2026 11 4 7 0) (at_time 2026 11 5 7 0) = Inr True \<and>
   send_events refusing_post (ascii ''hook'') no_text (at_time 2026 11 4 7 0) [standup] =
     Inl DiscordNotifierError \<and>
   send_raw refusing_post (ascii ''hook'') (ascii ''hello'') None = Inl DiscordNotifierError"
proof -
  have ok: "title_is_text standup"
    by (simp add: title_is_text_def standup_def)
  then have a: "\<forall>e \<in> set [] \<union> set [standup]. title_is_text e"
    and b: "\<forall>e \<in> set [standup]. title_is_text e"
    by simp_all
  have np: "post_payload accepting_post u p \<noteq> Inl DiscordNotifierError"
    and rp: "post_payload refusing_post u p \<noteq> Inr True" for u p
    by (simp_all add: post_payload_def accepting_post_def refusing_post_def)
  have d: "send_daily_notification accepting_post (ascii ''hook'') no_text [] [standup]
     (at_time 2026 11 4 7 0) (at_time 2026 11 5 7 0) \<noteq> Inl DiscordNotifierError"
    using np create_daily_embeds_total [OF a, of no_text "at_time 2026 11 4 7 0"
        "at_time 2026 11 5 7 0"]
    by (auto simp: send_daily_notification_def)
  have w: "send_events refusing_post (ascii ''hook'') no_text (at_time 2026 11 4 7 0)
      [standup] \<noteq> Inr True"
    using rp by (auto simp: send_events_def split: sum.splits)
  have r: "send_raw refusing_post (ascii ''hook'') (ascii ''hello'') None \<noteq> Inr True"
    using rp by (simp add: send_raw_def)
  from send_results [of accepting_post "ascii ''hook''" "ascii ''hello''" None "[]" "[standup]"
      no_text "at_time 2026 11 4 7 0" "at_time 2026 11 5 7 0" "[standup]"
      "at_time 2026 11 4 7 0"] a d
  have "send_daily_notification accepting_post (ascii ''hook'') no_text [] [standup]
     (at_time 2026 11 4 7 0) (at_time 2026 11 5 7 0) = Inr True"
    by auto
  moreover from send_results [of refusing_post "ascii ''hook''" "ascii ''hello''" None "[]"
      "[]" no_text "at_time 2026 11 4 7 0" "at_time 2026 11 5 7 0" "[standup]"
      "at_time 2026 11 4 7 0"] b w r
  have "send_events refusing_post (ascii ''hook'') no_text (at_time 2026 11 4 7 0) [standup] =
     Inl DiscordNotifierError"
    and "send_raw refusing_post (ascii ''hook'') (ascii ''hello'') None =
     Inl DiscordNotifierError"
    by auto
  ultimately show ?thesis using ok by simp
qed

end
